theory Spec2Isabelle
  imports Complex_Main
begin

section \<open>The cart gateway \<open>CartStoreService\<close> of cart-store-api.api.service.js\<close>

subsection \<open>JavaScript values\<close>

text \<open>
  The service only reads fields, compares two of them with \<open>!==\<close> and \<open>===\<close>, and tests
  others for truthiness (\<open>&&\<close>, \<open>||\<close>, \<open>!\<close>, \<open>if\<close>). The values it handles are modelled
  by the primitive values of the language, together with references to objects:
  \<^item> \<open>JNum\<close> is a finite number (the two zeros of the language are equal under \<open>===\<close>
    and both falsy, so one zero stands for both), \<open>JInf\<close> an infinity with its sign,
    \<open>JNaN\<close> the value NaN;
  \<^item> \<open>JObj\<close> is a reference to an object or array made by the caller (tax rules, shipping
    costs, the keys of the line items to remove), told apart by its address only;
  \<^item> \<open>JBuiltin\<close> is an object of the runtime itself, named by its path, such as the
    function \<open>Object.prototype.toString\<close>.
  A field that is absent reads as \<open>JUndefined\<close>.
\<close>

datatype jsval =
    JUndefined
  | JNull
  | JBool bool
  | JNum rat
  | JInf bool
  | JNaN
  | JStr string
  | JObj nat
  | JBuiltin string

text \<open>The conversion to a boolean that \<open>if\<close>, \<open>!\<close>, \<open>&&\<close> and \<open>||\<close> apply.\<close>

fun truthy :: "jsval \<Rightarrow> bool" where
  "truthy JUndefined = False"
| "truthy JNull = False"
| "truthy (JBool b) = b"
| "truthy (JNum r) = (r \<noteq> 0)"
| "truthy (JInf s) = True"
| "truthy JNaN = False"
| "truthy (JStr s) = (s \<noteq> [])"
| "truthy (JObj a) = True"
| "truthy (JBuiltin n) = True"

text \<open>\<open>a && b\<close> and \<open>a || b\<close> return one of their operands, not a boolean.\<close>

definition js_and :: "jsval \<Rightarrow> jsval \<Rightarrow> jsval" where
  "js_and a b = (if truthy a then b else a)"

definition js_or :: "jsval \<Rightarrow> jsval \<Rightarrow> jsval" where
  "js_or a b = (if truthy a then a else b)"

text \<open>\<open>a === b\<close>: NaN equals nothing, objects are equal when they are the same object.\<close>

fun strict_eq :: "jsval \<Rightarrow> jsval \<Rightarrow> bool" where
  "strict_eq JNaN b = False"
| "strict_eq a JNaN = False"
| "strict_eq a b = (a = b)"

text \<open>
  A plain object (an object literal, the parameters and headers of a request) as the
  map of its own properties.
\<close>

type_synonym jsobject = "string \<rightharpoonup> jsval"

text \<open>
  Reading \<open>obj[key]\<close> on an object literal looks at the object's own properties and then
  at those it inherits from \<open>Object.prototype\<close>; only a key found in neither reads as
  \<open>undefined\<close>. The inherited properties are the standard ones of the language.
\<close>

definition objectPrototype :: "(string \<times> jsval) list" where
  "objectPrototype =
     [(''constructor'', JBuiltin ''Object''),
      (''__proto__'', JBuiltin ''Object.prototype''),
      (''hasOwnProperty'', JBuiltin ''Object.prototype.hasOwnProperty''),
      (''isPrototypeOf'', JBuiltin ''Object.prototype.isPrototypeOf''),
      (''propertyIsEnumerable'', JBuiltin ''Object.prototype.propertyIsEnumerable''),
      (''toLocaleString'', JBuiltin ''Object.prototype.toLocaleString''),
      (''toString'', JBuiltin ''Object.prototype.toString''),
      (''valueOf'', JBuiltin ''Object.prototype.valueOf''),
      (''__defineGetter__'', JBuiltin ''Object.prototype.__defineGetter__''),
      (''__defineSetter__'', JBuiltin ''Object.prototype.__defineSetter__''),
      (''__lookupGetter__'', JBuiltin ''Object.prototype.__lookupGetter__''),
      (''__lookupSetter__'', JBuiltin ''Object.prototype.__lookupSetter__'')]"

definition getProperty :: "(string \<times> jsval) list \<Rightarrow> string \<Rightarrow> jsval" where
  "getProperty literal key =
     (case map_of literal key of
        Some v \<Rightarrow> v
      | None \<Rightarrow> (case map_of objectPrototype key of Some v \<Rightarrow> v | None \<Rightarrow> JUndefined))"

subsection \<open>The line item, its price definition and the payload\<close>

text \<open>
  \<open>item.price\<close> and \<open>item.priceDefinition\<close> are objects when they are there; \<open>None\<close> is
  the field being absent or null, where reading a field of it raises a TypeError.
  \<open>item.type\<close> is a string, as are the sales channel's identifier and the names of the
  feature flags; every other field is any value of the language, \<open>item._isNew\<close>
  included, which the code only tests for truthiness.
  The fields of the item carry the prefix \<open>item_\<close> (\<open>item_isNew\<close> is \<open>item._isNew\<close>),
  those of the price definition \<open>pd_\<close>, those of the payload's line item \<open>pl_\<close>;
  the parameter and local \<open>id\<close> is written \<open>id'\<close>.
\<close>

datatype error = TypeError

record price =
  unitPrice :: jsval

record priceDefinition =
  pd_price :: jsval
  pd_taxRules :: jsval
  pd_quantity :: jsval
  pd_type :: jsval

record lineItem =
  item_id :: jsval
  item_identifier :: jsval
  item_type :: string
  item_label :: jsval
  item_quantity :: jsval
  item_description :: jsval
  item_price :: "price option"
  item_priceDefinition :: "priceDefinition option"
  item_isNew :: jsval

record payloadItem =
  pl_id :: jsval
  pl_referencedId :: jsval
  pl_label :: jsval
  pl_quantity :: jsval
  pl_type :: string
  pl_description :: jsval
  pl_priceDefinition :: "priceDefinition option"
  pl_stackable :: bool
  pl_removable :: bool
  pl_salesChannelId :: string

record promotionItem =
  promo_type :: string
  promo_referencedId :: jsval

record 'i payload =
  items :: "'i list"

record idsData =
  ids :: jsval

record shippingData =
  sd_salesChannelId :: string
  sd_shippingCosts :: jsval

subsection \<open>Requests and collaborators\<close>

text \<open>
  Every operation hands one request to the HTTP client and returns what the client
  returns. The model returns the request: the client's method that is called, the route,
  the data sent (the second argument of \<open>post\<close> and \<open>patch\<close>, the \<open>data\<close> entry of the
  configuration of \<open>delete\<close>, nothing for \<open>get\<close>) and the two entries
  \<open>additionalParams\<close> and \<open>headers\<close> of the configuration.
\<close>

datatype httpMethod = GET | POST | PATCH | DELETE

record 'd request =
  req_method :: httpMethod
  req_route :: string
  req_data :: 'd
  req_additionalParams :: jsobject
  req_headers :: jsobject

text \<open>
  What the service takes from outside this file and uses as it is:
  \<^item> \<open>getApiVersion\<close>, of the base class \<open>ApiService\<close>: the version, as the text that the
    route's template prints;
  \<^item> \<open>getBasicHeaders\<close>, of the base class: the headers built from the additional ones;
  \<^item> \<open>createId\<close>, of the utility service: the identifier it returns when this call asks
    for one;
  \<^item> \<open>deepCopyObject\<close>, of the object utilities, on a price definition;
  \<^item> \<open>featureIsActive\<close>: \<open>Shopware.Service('feature').isActive\<close>.
\<close>

record services =
  getApiVersion :: string
  getBasicHeaders :: "jsobject \<Rightarrow> jsobject"
  createId :: string
  deepCopyObject :: "priceDefinition \<Rightarrow> priceDefinition"
  featureIsActive :: "string \<Rightarrow> bool"

subsection \<open>The constants and the type mapping\<close>

definition PRODUCT :: string where "PRODUCT = ''product''"
definition CREDIT :: string where "CREDIT = ''credit''"
definition CUSTOM :: string where "CUSTOM = ''custom''"

definition ABSOLUTE :: string where "ABSOLUTE = ''absolute''"
definition QUANTITY :: string where "QUANTITY = ''quantity''"


definition getLineItemPriceTypes :: "string list" where
  "getLineItemPriceTypes = [ABSOLUTE, QUANTITY]"

definition mapTypes :: "(string \<times> jsval) list" where
  "mapTypes = [(PRODUCT, JStr QUANTITY), (CUSTOM, JStr QUANTITY), (CREDIT, JStr ABSOLUTE)]"

definition mapLineItemTypeToPriceType :: "string \<Rightarrow> jsval" where
  "mapLineItemTypeToPriceType itemType = getProperty mapTypes itemType"

subsection \<open>The operations\<close>

text \<open>
  Three expressions that the operations repeat word for word are named once: the two
  route templates (\<open>cartRoute\<close>, \<open>lineItemRoute\<close>) and the headers
  \<open>{...this.getBasicHeaders(additionalHeaders), 'sw-context-token': contextToken}\<close>
  (\<open>contextHeaders\<close>), where the token written last replaces an entry of the same name.
  \<open>promotionToggleData\<close> is the \<open>data\<close> object that the two toggles build alike.
\<close>

definition cartRoute :: "services \<Rightarrow> string \<Rightarrow> string" where
  "cartRoute srv salesChannelId =
     ''_proxy/store-api/'' @ salesChannelId @ ''/v'' @ getApiVersion srv @ ''/checkout/cart''"

definition lineItemRoute :: "services \<Rightarrow> string \<Rightarrow> string" where
  "lineItemRoute srv salesChannelId =
     ''_proxy/store-api/'' @ salesChannelId @ ''/v'' @ getApiVersion srv
       @ ''/checkout/cart/line-item''"

definition contextHeaders :: "services \<Rightarrow> jsobject \<Rightarrow> jsval \<Rightarrow> jsobject" where
  "contextHeaders srv additionalHeaders contextToken =
     (getBasicHeaders srv additionalHeaders)(''sw-context-token'' \<mapsto> contextToken)"

definition createCart :: "services \<Rightarrow> string \<Rightarrow> jsobject \<Rightarrow> jsobject \<Rightarrow> unit request" where
  "createCart srv salesChannelId additionalParams additionalHeaders =
     \<lparr>req_method = GET, req_route = cartRoute srv salesChannelId, req_data = (),
      req_additionalParams = additionalParams,
      req_headers = getBasicHeaders srv additionalHeaders\<rparr>"

definition getCart ::
  "services \<Rightarrow> string \<Rightarrow> jsval \<Rightarrow> jsobject \<Rightarrow> jsobject \<Rightarrow> unit request" where
  "getCart srv salesChannelId contextToken additionalParams additionalHeaders =
     \<lparr>req_method = GET, req_route = cartRoute srv salesChannelId, req_data = (),
      req_additionalParams = additionalParams,
      req_headers = contextHeaders srv additionalHeaders contextToken\<rparr>"

definition cancelCart ::
  "services \<Rightarrow> string \<Rightarrow> jsval \<Rightarrow> jsobject \<Rightarrow> jsobject \<Rightarrow> unit request" where
  "cancelCart srv salesChannelId contextToken additionalParams additionalHeaders =
     \<lparr>req_method = DELETE, req_route = cartRoute srv salesChannelId, req_data = (),
      req_additionalParams = additionalParams,
      req_headers = contextHeaders srv additionalHeaders contextToken\<rparr>"

definition removeLineItems ::
  "services \<Rightarrow> string \<Rightarrow> jsval \<Rightarrow> jsval \<Rightarrow> jsobject \<Rightarrow> jsobject \<Rightarrow> idsData request" where
  "removeLineItems srv salesChannelId contextToken lineItemKeys additionalParams additionalHeaders =
     \<lparr>req_method = DELETE, req_route = lineItemRoute srv salesChannelId,
      req_data = \<lparr>ids = lineItemKeys\<rparr>,
      req_additionalParams = additionalParams,
      req_headers = contextHeaders srv additionalHeaders contextToken\<rparr>"

definition getRouteForItem :: "services \<Rightarrow> jsval \<Rightarrow> string \<Rightarrow> string" where
  "getRouteForItem srv id' salesChannelId = lineItemRoute srv salesChannelId"

text \<open>
  \<open>getPayloadForItem\<close>: the condition reads \<open>item.price.unitPrice\<close> and
  \<open>item.priceDefinition.price\<close> only when \<open>isNewProductItem\<close> is falsy, in this order, and
  each read raises when the object is not there.
\<close>

definition getPayloadForItem ::
  "services \<Rightarrow> lineItem \<Rightarrow> string \<Rightarrow> jsval \<Rightarrow> jsval \<Rightarrow> error + payloadItem payload" where
  "getPayloadForItem srv item salesChannelId isNewProductItem id' =
     (let dummyPrice =
        (if truthy isNewProductItem then Inr None
         else case item_price item of
           None \<Rightarrow> Inl TypeError
         | Some price \<Rightarrow>
             (case item_priceDefinition item of
                None \<Rightarrow> Inl TypeError
              | Some priceDefinition \<Rightarrow>
                  if \<not> strict_eq (unitPrice price) (pd_price priceDefinition)
                  then Inr (Some ((deepCopyObject srv priceDefinition)
                         \<lparr>pd_taxRules := pd_taxRules priceDefinition,
                          pd_quantity := item_quantity item,
                          pd_type := mapLineItemTypeToPriceType (item_type item)\<rparr>))
                  else Inr None))
      in case dummyPrice of
           Inl e \<Rightarrow> Inl e
         | Inr dp \<Rightarrow>
             Inr \<lparr>items =
               [\<lparr>pl_id = id',
                 pl_referencedId = id',
                 pl_label = item_label item,
                 pl_quantity = item_quantity item,
                 pl_type = item_type item,
                 pl_description = item_description item,
                 pl_priceDefinition = dp,
                 pl_stackable = True,
                 pl_removable = True,
                 pl_salesChannelId = salesChannelId\<rparr>]\<rparr>)"

definition saveLineItem ::
  "services \<Rightarrow> string \<Rightarrow> jsval \<Rightarrow> lineItem \<Rightarrow> jsobject \<Rightarrow> jsobject
     \<Rightarrow> error + payloadItem payload request" where
  "saveLineItem srv salesChannelId contextToken item additionalParams additionalHeaders =
     (let isNewProductItem = js_and (item_isNew item) (JBool (item_type item = PRODUCT));
          id' = js_or (js_or (item_identifier item) (item_id item)) (JStr (createId srv));
          route = getRouteForItem srv id' salesChannelId;
          headers = contextHeaders srv additionalHeaders contextToken
      in case getPayloadForItem srv item salesChannelId isNewProductItem id' of
           Inl e \<Rightarrow> Inl e
         | Inr payload \<Rightarrow>
             if truthy (item_isNew item)
             then Inr \<lparr>req_method = POST, req_route = route, req_data = payload,
                       req_additionalParams = additionalParams, req_headers = headers\<rparr>
             else Inr \<lparr>req_method = PATCH, req_route = route, req_data = payload,
                       req_additionalParams = additionalParams, req_headers = headers\<rparr>)"

definition addPromotionCode ::
  "services \<Rightarrow> string \<Rightarrow> jsval \<Rightarrow> jsval \<Rightarrow> jsobject \<Rightarrow> jsobject
     \<Rightarrow> promotionItem payload request" where
  "addPromotionCode srv salesChannelId contextToken code additionalParams additionalHeaders =
     \<lparr>req_method = POST, req_route = lineItemRoute srv salesChannelId,
      req_data = \<lparr>items = [\<lparr>promo_type = ''promotion'', promo_referencedId = code\<rparr>]\<rparr>,
      req_additionalParams = additionalParams,
      req_headers = contextHeaders srv additionalHeaders contextToken\<rparr>"

definition modifyShippingCosts ::
  "services \<Rightarrow> string \<Rightarrow> jsval \<Rightarrow> jsval \<Rightarrow> jsobject \<Rightarrow> jsobject \<Rightarrow> shippingData request" where
  "modifyShippingCosts srv salesChannelId contextToken shippingCosts additionalHeaders additionalParams =
     \<lparr>req_method = PATCH, req_route = ''_proxy/modify-shipping-costs'',
      req_data = \<lparr>sd_salesChannelId = salesChannelId, sd_shippingCosts = shippingCosts\<rparr>,
      req_additionalParams = additionalParams,
      req_headers = contextHeaders srv additionalHeaders contextToken\<rparr>"

text \<open>
  The two toggles read \<open>additionalParams.salesChannelId\<close>; \<open>salesChannelId\<close> is not a
  property of \<open>Object.prototype\<close>, so an absent entry reads as \<open>undefined\<close>.
\<close>

definition promotionToggleData :: "services \<Rightarrow> jsobject \<Rightarrow> jsobject" where
  "promotionToggleData srv additionalParams =
     (if featureIsActive srv ''FEATURE_NEXT_10058''
      then Map.empty(''salesChannelId'' \<mapsto>
             (case additionalParams ''salesChannelId'' of None \<Rightarrow> JUndefined | Some v \<Rightarrow> v))
      else Map.empty)"

definition disableAutomaticPromotions ::
  "services \<Rightarrow> jsval \<Rightarrow> jsobject \<Rightarrow> jsobject \<Rightarrow> jsobject request" where
  "disableAutomaticPromotions srv contextToken additionalParams additionalHeaders =
     \<lparr>req_method = PATCH, req_route = ''_proxy/disable-automatic-promotions'',
      req_data = promotionToggleData srv additionalParams,
      req_additionalParams = additionalParams,
      req_headers = contextHeaders srv additionalHeaders contextToken\<rparr>"

definition enableAutomaticPromotions ::
  "services \<Rightarrow> jsval \<Rightarrow> jsobject \<Rightarrow> jsobject \<Rightarrow> jsobject request" where
  "enableAutomaticPromotions srv contextToken additionalParams additionalHeaders =
     \<lparr>req_method = PATCH, req_route = ''_proxy/enable-automatic-promotions'',
      req_data = promotionToggleData srv additionalParams,
      req_additionalParams = additionalParams,
      req_headers = contextHeaders srv additionalHeaders contextToken\<rparr>"

subsection \<open>The identifier as the specification words it\<close>

text \<open>
  The specification says that the payload's identifier is \<open>item.identifier\<close> if present,
  else \<open>item.id\<close> if present, else a freshly generated one. \<open>specIdentifier\<close> follows
  these words, a field being present when it does not read as \<open>undefined\<close>; it is
  compared below with what \<open>saveLineItem\<close> computes.
\<close>

definition present :: "jsval \<Rightarrow> bool" where
  "present v = (v \<noteq> JUndefined)"

definition specIdentifier :: "services \<Rightarrow> lineItem \<Rightarrow> jsval" where
  "specIdentifier srv item =
     (if present (item_identifier item) then item_identifier item
      else if present (item_id item) then item_id item
      else JStr (createId srv))"

subsection \<open>Fixtures\<close>

text \<open>
  Concrete collaborators and a concrete line item, on which the operations are evaluated:
  version 3, basic headers that are the additional headers, a deep copy that returns an
  equal price definition, a feature service on which only \<open>FEATURE_NEXT_10058\<close> is
  active; and a product already in the cart whose unit price (10) was edited away from
  the price of its price definition (20).
\<close>

definition fixtureServices :: services where
  "fixtureServices =
     \<lparr>getApiVersion = ''3'', getBasicHeaders = (\<lambda>additionalHeaders. additionalHeaders),
      createId = ''generated-id'', deepCopyObject = (\<lambda>copyObject. copyObject),
      featureIsActive = (\<lambda>flag. flag = ''FEATURE_NEXT_10058'')\<rparr>"

definition fixtureItem :: lineItem where
  "fixtureItem =
     \<lparr>item_id = JStr ''id-1'', item_identifier = JStr ''identifier-1'',
      item_type = ''product'', item_label = JStr ''Gift wrap'', item_quantity = JNum 2,
      item_description = JUndefined,
      item_price = Some \<lparr>unitPrice = JNum 10\<rparr>,
      item_priceDefinition = Some \<lparr>pd_price = JNum 20, pd_taxRules = JObj 1,
        pd_quantity = JNum 1, pd_type = JStr ''quantity''\<rparr>,
      item_isNew = JBool False\<rparr>"

section \<open>Properties\<close>

subsection \<open>When \<open>saveLineItem\<close> issues a request, and which\<close>

text \<open>
  An item that has its \<open>price\<close> and its \<open>priceDefinition\<close> always leads to a request.
\<close>

lemma saveLineItem_returns:
  assumes "item_price item = Some p" and "item_priceDefinition item = Some d"
  shows "\<exists>req. saveLineItem srv sc tok item ps hs = Inr req"
  using assms by (simp add: saveLineItem_def getPayloadForItem_def Let_def)

text \<open>
  Every request of \<open>saveLineItem\<close> carries the one-item payload of \<open>getPayloadForItem\<close>,
  goes to the line-item route and has the headers with the context token.
\<close>

lemma saveLineItem_Inr:
  assumes "saveLineItem srv sc tok item ps hs = Inr req"
  shows "\<exists>li. getPayloadForItem srv item sc
            (js_and (item_isNew item) (JBool (item_type item = PRODUCT)))
            (js_or (js_or (item_identifier item) (item_id item)) (JStr (createId srv)))
          = Inr \<lparr>items = [li]\<rparr>
        \<and> req = \<lparr>req_method = (if truthy (item_isNew item) then POST else PATCH),
                 req_route = lineItemRoute srv sc, req_data = \<lparr>items = [li]\<rparr>,
                 req_additionalParams = ps, req_headers = contextHeaders srv hs tok\<rparr>"
  using assms
  by (auto simp add: saveLineItem_def getPayloadForItem_def Let_def getRouteForItem_def
      split: sum.splits if_splits option.splits)

text \<open>The payload does not read \<open>item.identifier\<close> or \<open>item.id\<close>.\<close>

lemma getPayloadForItem_identifier:
  "getPayloadForItem srv (item\<lparr>item_identifier := v\<rparr>) sc flag id'
     = getPayloadForItem srv item sc flag id'"
  by (simp add: getPayloadForItem_def split: option.splits)

lemma getPayloadForItem_id:
  "getPayloadForItem srv (item\<lparr>item_id := v\<rparr>) sc flag id'
     = getPayloadForItem srv item sc flag id'"
  by (simp add: getPayloadForItem_def split: option.splits)

lemma fixtureItem_returns:
  assumes "item_price item = item_price fixtureItem"
    and "item_priceDefinition item = item_priceDefinition fixtureItem"
  shows "\<exists>req. saveLineItem srv sc tok item ps hs = Inr req"
  using assms by (intro saveLineItem_returns) (simp_all add: fixtureItem_def)

subsection \<open>The price definition of the payload\<close>

text \<open>
  C1, as amended. For an item that has its price and its price definition,
  \<open>saveLineItem\<close> issues a request with a one-item payload, and the \<open>priceDefinition\<close>
  of that item is non-null if and only if the item is not a new product item
  (\<open>item._isNew\<close> truthy and \<open>item.type === 'product'\<close>) and \<open>item.price.unitPrice !==
  item.priceDefinition.price\<close>. The claim as written asks for "not new" instead of
  "not a new product item".
\<close>

theorem priceDefinition_sent_iff:
  assumes "item_price item = Some p" and "item_priceDefinition item = Some d"
  shows "\<exists>req li. saveLineItem srv sc tok item ps hs = Inr req
     \<and> items (req_data req) = [li]
     \<and> ((pl_priceDefinition li \<noteq> None)
          = (\<not> (truthy (item_isNew item) \<and> item_type item = PRODUCT)
              \<and> \<not> strict_eq (unitPrice p) (pd_price d)))"
  using assms by (auto simp add: saveLineItem_def getPayloadForItem_def Let_def js_and_def)

text \<open>Witness of C1 as amended: the edited product already in the cart.\<close>

theorem priceDefinition_sent_iff_witness:
  "item_price fixtureItem = Some \<lparr>unitPrice = JNum 10\<rparr>
   \<and> item_priceDefinition fixtureItem = Some \<lparr>pd_price = JNum 20, pd_taxRules = JObj 1,
        pd_quantity = JNum 1, pd_type = JStr ''quantity''\<rparr>
   \<and> (\<exists>req li. saveLineItem fixtureServices ''sc'' (JStr ''tok'') fixtureItem Map.empty Map.empty
          = Inr req
        \<and> items (req_data req) = [li] \<and> pl_priceDefinition li \<noteq> None)"
  using priceDefinition_sent_iff [of fixtureItem "\<lparr>unitPrice = JNum 10\<rparr>"
      "\<lparr>pd_price = JNum 20, pd_taxRules = JObj 1, pd_quantity = JNum 1,
        pd_type = JStr ''quantity''\<rparr>"
      fixtureServices "''sc''" "JStr ''tok''" Map.empty Map.empty]
  by (simp add: fixtureItem_def)

text \<open>
  Counterexample to C1 as written: a new item of type \<open>custom\<close> whose unit price differs
  from the price of its price definition. The item is new, and the request still
  carries a price definition.
\<close>

theorem priceDefinition_sent_for_new_custom_item:
  "item_isNew (fixtureItem\<lparr>item_type := ''custom'', item_isNew := JBool True\<rparr>) = JBool True
   \<and> saveLineItem fixtureServices ''sc'' (JStr ''tok'')
       (fixtureItem\<lparr>item_type := ''custom'', item_isNew := JBool True\<rparr>) Map.empty Map.empty =
     Inr \<lparr>req_method = POST,
          req_route = ''_proxy/store-api/sc/v3/checkout/cart/line-item'',
          req_data = \<lparr>items =
            [\<lparr>pl_id = JStr ''identifier-1'', pl_referencedId = JStr ''identifier-1'',
              pl_label = JStr ''Gift wrap'', pl_quantity = JNum 2, pl_type = ''custom'',
              pl_description = JUndefined,
              pl_priceDefinition = Some \<lparr>pd_price = JNum 20, pd_taxRules = JObj 1,
                pd_quantity = JNum 2, pd_type = JStr ''quantity''\<rparr>,
              pl_stackable = True, pl_removable = True, pl_salesChannelId = ''sc''\<rparr>]\<rparr>,
          req_additionalParams = Map.empty,
          req_headers = [''sw-context-token'' \<mapsto> JStr ''tok'']\<rparr>"
  by (simp add: fixtureItem_def fixtureServices_def saveLineItem_def getPayloadForItem_def
      Let_def js_and_def js_or_def PRODUCT_def getRouteForItem_def lineItemRoute_def
      contextHeaders_def mapLineItemTypeToPriceType_def getProperty_def mapTypes_def
      CUSTOM_def QUANTITY_def CREDIT_def ABSOLUTE_def)

text \<open>
  C2. For an item with \<open>_isNew\<close> true (or any truthy value) and type \<open>product\<close>,
  \<open>saveLineItem\<close> issues a request whose payload item has a null \<open>priceDefinition\<close>,
  whatever the prices are, and even when the item has no price at all.
\<close>

theorem new_product_item_no_priceDefinition:
  assumes "truthy (item_isNew item)" and "item_type item = PRODUCT"
  shows "\<exists>req li. saveLineItem srv sc tok item ps hs = Inr req
     \<and> items (req_data req) = [li] \<and> pl_priceDefinition li = None"
  using assms by (simp add: saveLineItem_def getPayloadForItem_def Let_def js_and_def)

text \<open>Witness of C2: the fixture as a new product, its prices still differing.\<close>

theorem new_product_item_no_priceDefinition_witness:
  "truthy (JBool True)
   \<and> (\<exists>req li. saveLineItem fixtureServices ''sc'' (JStr ''tok'')
          (fixtureItem\<lparr>item_isNew := JBool True\<rparr>) Map.empty Map.empty = Inr req
        \<and> items (req_data req) = [li] \<and> pl_priceDefinition li = None)"
  using new_product_item_no_priceDefinition [of "fixtureItem\<lparr>item_isNew := JBool True\<rparr>"
      fixtureServices "''sc''" "JStr ''tok''" Map.empty Map.empty]
  by (simp add: fixtureItem_def PRODUCT_def)

text \<open>
  C3. For an item with \<open>_isNew\<close> false (or any falsy value) and
  \<open>price.unitPrice !== priceDefinition.price\<close>, \<open>saveLineItem\<close> issues a request whose
  payload item has a non-null \<open>priceDefinition\<close>, with \<open>quantity\<close> equal to
  \<open>item.quantity\<close> and \<open>type\<close> equal to \<open>mapLineItemTypeToPriceType(item.type)\<close>.
\<close>

theorem existing_item_mismatch_priceDefinition:
  assumes "\<not> truthy (item_isNew item)"
    and "item_price item = Some p" and "item_priceDefinition item = Some d"
    and "\<not> strict_eq (unitPrice p) (pd_price d)"
  shows "\<exists>req li dp. saveLineItem srv sc tok item ps hs = Inr req
     \<and> items (req_data req) = [li]
     \<and> pl_priceDefinition li = Some dp
     \<and> pd_quantity dp = item_quantity item
     \<and> pd_type dp = mapLineItemTypeToPriceType (item_type item)"
  using assms by (simp add: saveLineItem_def getPayloadForItem_def Let_def js_and_def)

text \<open>Witness of C3: the fixture, with quantity 2 and the price type of a product.\<close>

theorem existing_item_mismatch_priceDefinition_witness:
  "\<not> truthy (item_isNew fixtureItem)
   \<and> \<not> strict_eq (JNum 10) (JNum 20)
   \<and> (\<exists>req li dp. saveLineItem fixtureServices ''sc'' (JStr ''tok'') fixtureItem
          Map.empty Map.empty = Inr req
        \<and> items (req_data req) = [li]
        \<and> pl_priceDefinition li = Some dp
        \<and> pd_quantity dp = JNum 2
        \<and> pd_type dp = mapLineItemTypeToPriceType ''product'')"
  using existing_item_mismatch_priceDefinition [of fixtureItem "\<lparr>unitPrice = JNum 10\<rparr>"
      "\<lparr>pd_price = JNum 20, pd_taxRules = JObj 1, pd_quantity = JNum 1,
        pd_type = JStr ''quantity''\<rparr>"
      fixtureServices "''sc''" "JStr ''tok''" Map.empty Map.empty]
  by (simp add: fixtureItem_def)

text \<open>
  C4. For an item with \<open>_isNew\<close> false (or any falsy value) and
  \<open>price.unitPrice === priceDefinition.price\<close>, \<open>saveLineItem\<close> issues a request whose
  payload item has a null \<open>priceDefinition\<close>.
\<close>

theorem existing_item_match_no_priceDefinition:
  assumes "\<not> truthy (item_isNew item)"
    and "item_price item = Some p" and "item_priceDefinition item = Some d"
    and "strict_eq (unitPrice p) (pd_price d)"
  shows "\<exists>req li. saveLineItem srv sc tok item ps hs = Inr req
     \<and> items (req_data req) = [li] \<and> pl_priceDefinition li = None"
  using assms by (simp add: saveLineItem_def getPayloadForItem_def Let_def js_and_def)

text \<open>Witness of C4: the fixture with its unit price back at 20.\<close>

theorem existing_item_match_no_priceDefinition_witness:
  "\<not> truthy (JBool False)
   \<and> strict_eq (JNum 20) (JNum 20)
   \<and> (\<exists>req li. saveLineItem fixtureServices ''sc'' (JStr ''tok'')
          (fixtureItem\<lparr>item_price := Some \<lparr>unitPrice = JNum 20\<rparr>\<rparr>) Map.empty Map.empty = Inr req
        \<and> items (req_data req) = [li] \<and> pl_priceDefinition li = None)"
  using existing_item_match_no_priceDefinition
      [of "fixtureItem\<lparr>item_price := Some \<lparr>unitPrice = JNum 20\<rparr>\<rparr>" "\<lparr>unitPrice = JNum 20\<rparr>"
      "\<lparr>pd_price = JNum 20, pd_taxRules = JObj 1, pd_quantity = JNum 1,
        pd_type = JStr ''quantity''\<rparr>"
      fixtureServices "''sc''" "JStr ''tok''" Map.empty Map.empty]
  by (simp add: fixtureItem_def)

subsection \<open>Method, route, type mapping and identifier\<close>

text \<open>
  C5. Every request of \<open>saveLineItem\<close> is a POST exactly when \<open>item._isNew\<close> is truthy
  and a PATCH exactly when it is not, and its route is the line-item route of the sales
  channel, in which the item does not occur.
\<close>

theorem saveLineItem_method_and_route:
  assumes "saveLineItem srv sc tok item ps hs = Inr req"
  shows "(req_method req = POST) = truthy (item_isNew item)
       \<and> (req_method req = PATCH) = (\<not> truthy (item_isNew item))
       \<and> req_route req
           = ''_proxy/store-api/'' @ sc @ ''/v'' @ getApiVersion srv @ ''/checkout/cart/line-item''"
  using saveLineItem_Inr [OF assms] by (auto simp add: lineItemRoute_def split: if_splits)

text \<open>
  Witness of C5: the fixture is updated with a PATCH, the same item marked new is created
  with a POST, both on the same route.
\<close>

theorem saveLineItem_method_and_route_witness:
  "\<exists>req req'.
     saveLineItem fixtureServices ''sc'' (JStr ''tok'') fixtureItem Map.empty Map.empty = Inr req
     \<and> saveLineItem fixtureServices ''sc'' (JStr ''tok'')
          (fixtureItem\<lparr>item_type := ''custom'', item_isNew := JBool True\<rparr>) Map.empty Map.empty
        = Inr req'
     \<and> req_method req = PATCH \<and> req_method req' = POST
     \<and> req_route req = ''_proxy/store-api/sc/v3/checkout/cart/line-item''
     \<and> req_route req' = ''_proxy/store-api/sc/v3/checkout/cart/line-item''"
proof -
  have "\<exists>req. saveLineItem fixtureServices ''sc'' (JStr ''tok'') fixtureItem
      Map.empty Map.empty = Inr req"
    by (rule fixtureItem_returns) simp_all
  then obtain req where r: "saveLineItem fixtureServices ''sc'' (JStr ''tok'') fixtureItem
      Map.empty Map.empty = Inr req" ..
  have "\<exists>req'. saveLineItem fixtureServices ''sc'' (JStr ''tok'')
      (fixtureItem\<lparr>item_type := ''custom'', item_isNew := JBool True\<rparr>) Map.empty Map.empty
      = Inr req'"
    by (rule fixtureItem_returns) simp_all
  then obtain req' where r': "saveLineItem fixtureServices ''sc'' (JStr ''tok'')
      (fixtureItem\<lparr>item_type := ''custom'', item_isNew := JBool True\<rparr>) Map.empty Map.empty
      = Inr req'" ..
  have m: "req_method req = PATCH
      \<and> req_route req = ''_proxy/store-api/sc/v3/checkout/cart/line-item''"
    using saveLineItem_method_and_route [OF r]
    by (simp add: fixtureItem_def fixtureServices_def)
  have m': "req_method req' = POST
      \<and> req_route req' = ''_proxy/store-api/sc/v3/checkout/cart/line-item''"
    using saveLineItem_method_and_route [OF r']
    by (simp add: fixtureItem_def fixtureServices_def)
  from r r' m m' show ?thesis by blast
qed



text \<open>
  C7, as amended. In every request of \<open>saveLineItem\<close> the payload item's \<open>id\<close> and
  \<open>referencedId\<close> are both \<open>item.identifier\<close> if that is truthy, else \<open>item.id\<close> if that
  is truthy, else the identifier generated by \<open>createId\<close>. The claim as written asks
  for "present" instead of "truthy".
\<close>

theorem saveLineItem_identifier_precedence:
  assumes "saveLineItem srv sc tok item ps hs = Inr req"
  shows "\<exists>li. items (req_data req) = [li]
     \<and> pl_id li = (if truthy (item_identifier item) then item_identifier item
                   else if truthy (item_id item) then item_id item
                   else JStr (createId srv))
     \<and> pl_referencedId li = pl_id li"
  using saveLineItem_Inr [OF assms]
  by (auto simp add: getPayloadForItem_def Let_def js_or_def split: sum.splits if_splits)

text \<open>
  Witness of C7 as amended: the fixture has both fields and is sent under its
  \<open>identifier\<close>.
\<close>

theorem saveLineItem_identifier_precedence_witness:
  "\<exists>req li. saveLineItem fixtureServices ''sc'' (JStr ''tok'') fixtureItem Map.empty Map.empty
       = Inr req
     \<and> items (req_data req) = [li]
     \<and> pl_id li = JStr ''identifier-1'' \<and> pl_referencedId li = JStr ''identifier-1''"
proof -
  have "\<exists>req. saveLineItem fixtureServices ''sc'' (JStr ''tok'') fixtureItem
      Map.empty Map.empty = Inr req"
    by (rule fixtureItem_returns) simp_all
  then obtain req where r: "saveLineItem fixtureServices ''sc'' (JStr ''tok'') fixtureItem
      Map.empty Map.empty = Inr req" ..
  from saveLineItem_identifier_precedence [OF r]
  obtain li where "items (req_data req) = [li]"
    and "pl_id li = JStr ''identifier-1''" and "pl_referencedId li = pl_id li"
    by (auto simp add: fixtureItem_def)
  with r show ?thesis by auto
qed

text \<open>
  Counterexample to C7 as written: an item whose \<open>identifier\<close> is present and is the
  empty string, and whose \<open>id\<close> is \<open>'id-1'\<close>. By the claim's words the payload would carry
  the empty string; the request carries \<open>'id-1'\<close>.
\<close>

theorem saveLineItem_empty_identifier_skipped:
  "specIdentifier fixtureServices (fixtureItem\<lparr>item_identifier := JStr ''''\<rparr>) = JStr ''''
   \<and> saveLineItem fixtureServices ''sc'' (JStr ''tok'')
       (fixtureItem\<lparr>item_identifier := JStr ''''\<rparr>) Map.empty Map.empty =
     Inr \<lparr>req_method = PATCH,
          req_route = ''_proxy/store-api/sc/v3/checkout/cart/line-item'',
          req_data = \<lparr>items =
            [\<lparr>pl_id = JStr ''id-1'', pl_referencedId = JStr ''id-1'',
              pl_label = JStr ''Gift wrap'', pl_quantity = JNum 2, pl_type = ''product'',
              pl_description = JUndefined,
              pl_priceDefinition = Some \<lparr>pd_price = JNum 20, pd_taxRules = JObj 1,
                pd_quantity = JNum 2, pd_type = JStr ''quantity''\<rparr>,
              pl_stackable = True, pl_removable = True, pl_salesChannelId = ''sc''\<rparr>]\<rparr>,
          req_additionalParams = Map.empty,
          req_headers = [''sw-context-token'' \<mapsto> JStr ''tok'']\<rparr>"
  by (simp add: fixtureItem_def fixtureServices_def
      specIdentifier_def present_def saveLineItem_def getPayloadForItem_def
      Let_def js_and_def js_or_def PRODUCT_def getRouteForItem_def lineItemRoute_def
      contextHeaders_def mapLineItemTypeToPriceType_def getProperty_def mapTypes_def
      CUSTOM_def QUANTITY_def CREDIT_def ABSOLUTE_def)

subsection \<open>Promotion toggles, the context token and falsy identifiers\<close>

text \<open>
  C8. The data sent by \<open>disableAutomaticPromotions\<close> and by \<open>enableAutomaticPromotions\<close>
  has a \<open>salesChannelId\<close> entry only when the feature \<open>FEATURE_NEXT_10058\<close> is active,
  where it is the object with that one entry, read from \<open>additionalParams\<close>; when the
  feature is not active the data is the empty object.
\<close>

theorem automatic_promotions_data:
  "(''salesChannelId'' \<in> dom (req_data (disableAutomaticPromotions srv tok ps hs))
      \<longrightarrow> featureIsActive srv ''FEATURE_NEXT_10058'')
   \<and> (''salesChannelId'' \<in> dom (req_data (enableAutomaticPromotions srv tok ps hs))
      \<longrightarrow> featureIsActive srv ''FEATURE_NEXT_10058'')
   \<and> (featureIsActive srv ''FEATURE_NEXT_10058'' \<longrightarrow>
        req_data (disableAutomaticPromotions srv tok ps hs)
          = [''salesChannelId'' \<mapsto>
              (case ps ''salesChannelId'' of None \<Rightarrow> JUndefined | Some v \<Rightarrow> v)]
      \<and> req_data (enableAutomaticPromotions srv tok ps hs)
          = [''salesChannelId'' \<mapsto>
              (case ps ''salesChannelId'' of None \<Rightarrow> JUndefined | Some v \<Rightarrow> v)])
   \<and> (\<not> featureIsActive srv ''FEATURE_NEXT_10058'' \<longrightarrow>
        req_data (disableAutomaticPromotions srv tok ps hs) = Map.empty
      \<and> req_data (enableAutomaticPromotions srv tok ps hs) = Map.empty)"
  by (simp add: disableAutomaticPromotions_def enableAutomaticPromotions_def
      promotionToggleData_def)

text \<open>
  Witness of C8: with the feature active the data carries the sales channel of the
  parameters; with no feature active it is empty.
\<close>

theorem automatic_promotions_data_witness:
  "featureIsActive fixtureServices ''FEATURE_NEXT_10058''
   \<and> req_data (disableAutomaticPromotions fixtureServices (JStr ''tok'')
        [''salesChannelId'' \<mapsto> JStr ''sc''] Map.empty) = [''salesChannelId'' \<mapsto> JStr ''sc'']
   \<and> req_data (enableAutomaticPromotions fixtureServices (JStr ''tok'')
        [''salesChannelId'' \<mapsto> JStr ''sc''] Map.empty) = [''salesChannelId'' \<mapsto> JStr ''sc'']
   \<and> \<not> featureIsActive (fixtureServices\<lparr>featureIsActive := (\<lambda>flag. False)\<rparr>)
          ''FEATURE_NEXT_10058''
   \<and> req_data (disableAutomaticPromotions (fixtureServices\<lparr>featureIsActive := (\<lambda>flag. False)\<rparr>)
        (JStr ''tok'') [''salesChannelId'' \<mapsto> JStr ''sc''] Map.empty) = Map.empty
   \<and> req_data (enableAutomaticPromotions (fixtureServices\<lparr>featureIsActive := (\<lambda>flag. False)\<rparr>)
        (JStr ''tok'') [''salesChannelId'' \<mapsto> JStr ''sc''] Map.empty) = Map.empty"
  using automatic_promotions_data [of fixtureServices "JStr ''tok''"
      "[''salesChannelId'' \<mapsto> JStr ''sc'']" Map.empty]
    automatic_promotions_data [of "fixtureServices\<lparr>featureIsActive := (\<lambda>flag. False)\<rparr>"
      "JStr ''tok''" "[''salesChannelId'' \<mapsto> JStr ''sc'']" Map.empty]
  by (simp add: fixtureServices_def)

text \<open>
  C9. The requests of \<open>getCart\<close>, \<open>cancelCart\<close>, \<open>removeLineItems\<close>, \<open>saveLineItem\<close>,
  \<open>addPromotionCode\<close>, \<open>modifyShippingCosts\<close>, \<open>disableAutomaticPromotions\<close> and
  \<open>enableAutomaticPromotions\<close> all have the supplied context token in their headers
  under the name \<open>sw-context-token\<close>, whatever the basic headers are.
\<close>

theorem context_token_header:
  "req_headers (getCart srv sc tok ps hs) ''sw-context-token'' = Some tok
   \<and> req_headers (cancelCart srv sc tok ps hs) ''sw-context-token'' = Some tok
   \<and> req_headers (removeLineItems srv sc tok lineItemKeys ps hs) ''sw-context-token'' = Some tok
   \<and> (\<forall>req. saveLineItem srv sc tok item ps hs = Inr req
        \<longrightarrow> req_headers req ''sw-context-token'' = Some tok)
   \<and> req_headers (addPromotionCode srv sc tok code ps hs) ''sw-context-token'' = Some tok
   \<and> req_headers (modifyShippingCosts srv sc tok shippingCosts hs ps) ''sw-context-token''
       = Some tok
   \<and> req_headers (disableAutomaticPromotions srv tok ps hs) ''sw-context-token'' = Some tok
   \<and> req_headers (enableAutomaticPromotions srv tok ps hs) ''sw-context-token'' = Some tok"
proof (intro conjI allI impI)
  fix req
  assume "saveLineItem srv sc tok item ps hs = Inr req"
  from saveLineItem_Inr [OF this]
  show "req_headers req ''sw-context-token'' = Some tok"
    by (auto simp add: contextHeaders_def)
qed (simp_all add: getCart_def cancelCart_def removeLineItems_def addPromotionCode_def
      modifyShippingCosts_def disableAutomaticPromotions_def enableAutomaticPromotions_def
      contextHeaders_def)

text \<open>
  Witness of C9: the fixture is saved with the token \<open>tok\<close>, the additional headers
  already holding another token under the same name.
\<close>

theorem context_token_header_witness:
  "\<exists>req. saveLineItem fixtureServices ''sc'' (JStr ''tok'') fixtureItem Map.empty
       [''sw-context-token'' \<mapsto> JStr ''other''] = Inr req
     \<and> req_headers req ''sw-context-token'' = Some (JStr ''tok'')"
proof -
  have "\<exists>req. saveLineItem fixtureServices ''sc'' (JStr ''tok'') fixtureItem Map.empty
      [''sw-context-token'' \<mapsto> JStr ''other''] = Inr req"
    by (rule fixtureItem_returns) simp_all
  then obtain req where r: "saveLineItem fixtureServices ''sc'' (JStr ''tok'') fixtureItem
      Map.empty [''sw-context-token'' \<mapsto> JStr ''other''] = Inr req" ..
  have "req_headers req ''sw-context-token'' = Some (JStr ''tok'')"
    by (rule context_token_header [THEN conjunct2, THEN conjunct2, THEN conjunct2,
          THEN conjunct1, THEN spec, THEN mp, OF r])
  with r show ?thesis by blast
qed

text \<open>
  C10. The empty string, 0 and null are falsy, and \<open>saveLineItem\<close> treats a falsy
  \<open>item.identifier\<close> or \<open>item.id\<close> as it treats the absent field: the outcome is the
  one for the item without that field. With a falsy \<open>identifier\<close> the payload's \<open>id\<close>
  is \<open>item.id\<close> when that is truthy and the generated identifier otherwise.
\<close>

theorem falsy_identifier_as_absent:
  "\<not> truthy (JStr '''') \<and> \<not> truthy (JNum 0) \<and> \<not> truthy JNull
   \<and> (\<not> truthy (item_identifier item) \<longrightarrow>
        saveLineItem srv sc tok item ps hs
          = saveLineItem srv sc tok (item\<lparr>item_identifier := JUndefined\<rparr>) ps hs)
   \<and> (\<not> truthy (item_id item) \<longrightarrow>
        saveLineItem srv sc tok item ps hs
          = saveLineItem srv sc tok (item\<lparr>item_id := JUndefined\<rparr>) ps hs)
   \<and> (\<forall>req. saveLineItem srv sc tok item ps hs = Inr req \<and> \<not> truthy (item_identifier item)
        \<longrightarrow> map pl_id (items (req_data req))
              = [if truthy (item_id item) then item_id item else JStr (createId srv)])"
proof (intro conjI allI impI)
  fix req
  assume a: "saveLineItem srv sc tok item ps hs = Inr req \<and> \<not> truthy (item_identifier item)"
  from saveLineItem_Inr [OF a [THEN conjunct1]] a [THEN conjunct2]
  show "map pl_id (items (req_data req))
      = [if truthy (item_id item) then item_id item else JStr (createId srv)]"
    by (auto simp add: getPayloadForItem_def Let_def js_or_def split: sum.splits if_splits)
qed (simp_all add: saveLineItem_def getPayloadForItem_identifier getPayloadForItem_id
      Let_def js_or_def getRouteForItem_def cong: sum.case_cong)

text \<open>
  Witness of C10: with the empty string in both fields the fixture is sent under the
  generated identifier, as it is with both fields absent.
\<close>

theorem falsy_identifier_as_absent_witness:
  "\<not> truthy (item_identifier (fixtureItem\<lparr>item_identifier := JStr '''', item_id := JStr ''''\<rparr>))
   \<and> \<not> truthy (item_id (fixtureItem\<lparr>item_identifier := JStr '''', item_id := JStr ''''\<rparr>))
   \<and> (\<exists>req. saveLineItem fixtureServices ''sc'' (JStr ''tok'')
          (fixtureItem\<lparr>item_identifier := JStr '''', item_id := JStr ''''\<rparr>) Map.empty Map.empty
          = Inr req
        \<and> saveLineItem fixtureServices ''sc'' (JStr ''tok'')
          (fixtureItem\<lparr>item_identifier := JUndefined, item_id := JStr ''''\<rparr>) Map.empty Map.empty
          = Inr req
        \<and> map pl_id (items (req_data req)) = [JStr ''generated-id''])"
proof -
  let ?item = "fixtureItem\<lparr>item_identifier := JStr '''', item_id := JStr ''''\<rparr>"
  have f: "\<not> truthy (item_identifier ?item)" and g: "\<not> truthy (item_id ?item)"
    by simp_all
  have "\<exists>req. saveLineItem fixtureServices ''sc'' (JStr ''tok'') ?item Map.empty Map.empty
      = Inr req"
    by (rule fixtureItem_returns) simp_all
  then obtain req where r: "saveLineItem fixtureServices ''sc'' (JStr ''tok'') ?item
      Map.empty Map.empty = Inr req" ..
  note c = falsy_identifier_as_absent [of ?item fixtureServices "''sc''" "JStr ''tok''"
      Map.empty Map.empty]
  have e: "saveLineItem fixtureServices ''sc'' (JStr ''tok'') ?item Map.empty Map.empty
      = saveLineItem fixtureServices ''sc'' (JStr ''tok'')
          (?item\<lparr>item_identifier := JUndefined\<rparr>) Map.empty Map.empty"
    using c f by blast
  have i: "map pl_id (items (req_data req))
      = [if truthy (item_id ?item) then item_id ?item else JStr (createId fixtureServices)]"
    using c r f by blast
  show ?thesis
    using r e i f g
    by (intro conjI exI [of _ req]) (simp_all add: fixtureServices_def fixtureItem_def)
qed

end
